theory Spec2Isabelle
  imports Main "HOL-Library.Word"
begin

unbundle bit_operations_syntax

section \<open>MC error interrupt handling header (mcerr.h)\<close>

text \<open>
  The header \<^verbatim>\<open>include/linux/platform/tegra/mcerr.h\<close> consists of preprocessor
  definitions, two structure declarations that matter here, and a handful of extern
  declarations. An object-like macro whose body is a C constant expression of type
  \<^verbatim>\<open>int\<close> is embedded as a constant of type \<^typ>\<open>int\<close>: \<^verbatim>\<open>a << n\<close> is
  \<^term>\<open>push_bit n a\<close>. The values, computed below, all lie in \<open>0 ..< 2 ^ 31\<close>,
  so no shift overflows the 32-bit \<^verbatim>\<open>int\<close> of the target. The kernel type
  \<^verbatim>\<open>u32\<close> is \<^typ>\<open>32 word\<close>.
\<close>

type_synonym u32 = "32 word"

subsection \<open>Limits and register offsets\<close>

definition MAX_PRINTS :: int where
  "MAX_PRINTS = 5"

definition MC_INT_STATUS :: int where
  "MC_INT_STATUS = 0x0"

definition MC_INT_MASK :: int where
  "MC_INT_MASK = 0x4"

definition MC_ERR_BBC_STATUS :: int where
  "MC_ERR_BBC_STATUS = 0x84"

definition MC_ERR_BBC_ADR :: int where
  "MC_ERR_BBC_ADR = 0x88"

subsection \<open>Fields of the error status register\<close>

definition MC_ERR_SMMU_MASK :: int where
  "MC_ERR_SMMU_MASK = push_bit 25 0x7"

text \<open>
  \<^verbatim>\<open>#define MC_ERR_SMMU_BITS(err) (((err) & MC_ERR_SMMU_MASK) >> 25)\<close>, applied to
  a \<^verbatim>\<open>u32\<close> status word: the usual arithmetic conversions turn the (non-negative)
  \<^verbatim>\<open>int\<close> mask into an unsigned 32-bit value, and the right shift of the unsigned
  result is a logical one.
\<close>

definition MC_ERR_SMMU_BITS :: "u32 \<Rightarrow> u32" where
  "MC_ERR_SMMU_BITS err = drop_bit 25 (err AND word_of_int MC_ERR_SMMU_MASK)"

definition MC_ERR_STATUS_WRITE :: int where
  "MC_ERR_STATUS_WRITE = push_bit 16 1"

definition MC_ERR_STATUS_SECURE :: int where
  "MC_ERR_STATUS_SECURE = push_bit 17 1"

definition MC_ERR_STATUS_ADR_HI :: int where
  "MC_ERR_STATUS_ADR_HI = push_bit 20 3"

subsection \<open>Interrupt status bits\<close>

definition MC_INT_DECERR_EMEM :: int where
  "MC_INT_DECERR_EMEM = push_bit 6 1"

definition MC_INT_SECURITY_VIOLATION :: int where
  "MC_INT_SECURITY_VIOLATION = push_bit 8 1"

definition MC_INT_ARBITRATION_EMEM :: int where
  "MC_INT_ARBITRATION_EMEM = push_bit 9 1"

definition MC_INT_INVALID_SMMU_PAGE :: int where
  "MC_INT_INVALID_SMMU_PAGE = push_bit 10 1"

definition MC_INT_INVALID_APB_ASID_UPDATE :: int where
  "MC_INT_INVALID_APB_ASID_UPDATE = push_bit 11 1"

definition MC_INT_DECERR_VPR :: int where
  "MC_INT_DECERR_VPR = push_bit 12 1"

definition MC_INT_SECERR_SEC :: int where
  "MC_INT_SECERR_SEC = push_bit 13 1"

definition MC_INT_BBC_PRIVATE_MEM_VIOLATION :: int where
  "MC_INT_BBC_PRIVATE_MEM_VIOLATION = push_bit 14 1"

definition MC_INT_DECERR_BBC :: int where
  "MC_INT_DECERR_BBC = push_bit 15 1"

definition MC_INT_DECERR_MTS :: int where
  "MC_INT_DECERR_MTS = push_bit 16 1"

definition MC_INT_DECERR_GENERALIZED_CARVEOUT :: int where
  "MC_INT_DECERR_GENERALIZED_CARVEOUT = push_bit 17 1"

definition MC_INT_WCAM_ERR :: int where
  "MC_INT_WCAM_ERR = push_bit 19 1"

text \<open>The twelve interrupt status bits, in the order of the header.\<close>

abbreviation MC_INT_masks :: "int list" where
  "MC_INT_masks \<equiv>
    [MC_INT_DECERR_EMEM, MC_INT_SECURITY_VIOLATION, MC_INT_ARBITRATION_EMEM,
     MC_INT_INVALID_SMMU_PAGE, MC_INT_INVALID_APB_ASID_UPDATE, MC_INT_DECERR_VPR,
     MC_INT_SECERR_SEC, MC_INT_BBC_PRIVATE_MEM_VIOLATION, MC_INT_DECERR_BBC,
     MC_INT_DECERR_MTS, MC_INT_DECERR_GENERALIZED_CARVEOUT, MC_INT_WCAM_ERR]"

text \<open>Hub common interrupt status.\<close>

definition MC_HUBC_INT_SCRUB_ECC_WR_ACK :: int where
  "MC_HUBC_INT_SCRUB_ECC_WR_ACK = push_bit 0 1"

subsection \<open>Error codes\<close>

definition MC_ERR_DECERR_EMEM :: int where
  "MC_ERR_DECERR_EMEM = 2"

definition MC_ERR_SECURITY_TRUSTZONE :: int where
  "MC_ERR_SECURITY_TRUSTZONE = 3"

definition MC_ERR_SECURITY_CARVEOUT :: int where
  "MC_ERR_SECURITY_CARVEOUT = 4"

definition MC_ERR_INVALID_SMMU_PAGE :: int where
  "MC_ERR_INVALID_SMMU_PAGE = 6"

subsection \<open>Error descriptors\<close>

text \<open>
  A \<^verbatim>\<open>const char *\<close> is either \<^verbatim>\<open>NULL\<close> or the address of a string. C
  \<^verbatim>\<open>int\<close> fields are \<^typ>\<open>int\<close>.
\<close>

type_synonym cstring = "string option"

text \<open>
  \<^verbatim>\<open>struct mc_error\<close> describes one error the memory controller can raise: its
  interrupt signature, a description, flags, and the offsets of the registers that hold
  the status of the error and the faulting address.
\<close>

record mc_error =
  msg :: cstring
  sig :: u32
  flags :: int
  stat_reg :: u32
  addr_reg :: u32

definition E_SMMU :: int where
  "E_SMMU = push_bit 0 1"

definition E_NO_STATUS :: int where
  "E_NO_STATUS = push_bit 1 1"

definition E_TWO_STATUS :: int where
  "E_TWO_STATUS = push_bit 2 1"

text \<open>
  \<^verbatim>\<open>MC_ERR(_sig, _msg, _flags, _stat_reg, _addr_reg)\<close> expands to an initializer
  with one designator for each of the five fields.
\<close>

definition MC_ERR :: "u32 \<Rightarrow> cstring \<Rightarrow> int \<Rightarrow> u32 \<Rightarrow> u32 \<Rightarrow> mc_error" where
  "MC_ERR sig' msg' flags' stat_reg' addr_reg' =
     \<lparr>msg = msg', sig = sig', flags = flags', stat_reg = stat_reg', addr_reg = addr_reg'\<rparr>"

subsection \<open>The chip-specific callback table\<close>

text \<open>
  \<^verbatim>\<open>struct mcerr_chip_specific\<close>. A function pointer is a function. A callback
  that returns \<^verbatim>\<open>void\<close> acts on the state of the kernel, of type \<open>'k\<close>, only;
  \<^verbatim>\<open>mcerr_debugfs_show\<close> returns its \<^verbatim>\<open>int\<close> together with the new state.
  The pointer returned by \<^verbatim>\<open>mcerr_info\<close> is \<^term>\<open>None\<close> when it is
  \<^verbatim>\<open>NULL\<close>. The types that other headers declare are parameters: \<open>'c\<close> is
  \<^verbatim>\<open>struct mc_client\<close>, \<open>'p\<close> is \<^verbatim>\<open>phys_addr_t\<close>, \<open>'q\<close> is
  \<^verbatim>\<open>struct seq_file *\<close> and \<open>'v\<close> is \<^verbatim>\<open>void *\<close>. An
  \<^verbatim>\<open>unsigned int\<close> has 32 bits on the target. \<^verbatim>\<open>intr_descriptions\<close> points
  to an array of strings, some of them \<^verbatim>\<open>NULL\<close>.
\<close>

record ('k, 'c, 'p, 'q, 'v) mcerr_chip_specific =
  mcerr_info :: "u32 \<Rightarrow> mc_error option"
  mcerr_print :: "mc_error \<Rightarrow> 'c \<Rightarrow> u32 \<Rightarrow> 'p \<Rightarrow> int \<Rightarrow> int \<Rightarrow> cstring \<Rightarrow> 'k \<Rightarrow> 'k"
  mcerr_debugfs_show :: "'q \<Rightarrow> 'v \<Rightarrow> 'k \<Rightarrow> int \<times> 'k"
  disable_interrupt :: "u32 \<Rightarrow> 'k \<Rightarrow> 'k"
  enable_interrupt :: "u32 \<Rightarrow> 'k \<Rightarrow> 'k"
  clear_interrupt :: "u32 \<Rightarrow> 'k \<Rightarrow> 'k"
  log_mcerr_fault :: "u32 \<Rightarrow> 'k \<Rightarrow> 'k"
  nr_clients :: u32
  intr_descriptions :: "cstring list"

subsection \<open>Logging\<close>

text \<open>
  \<^verbatim>\<open>mcerr_pr(fmt, ...)\<close> reads the global \<^verbatim>\<open>u32 mcerr_silenced\<close>, which the
  header declares extern, and calls \<^verbatim>\<open>trace_printk\<close> and \<^verbatim>\<open>pr_err\<close>, which
  the kernel provides. The state the macro acts on is that global together with the
  sequence of calls made to the two printing functions so far, oldest first; a call is
  recorded with its format string and its arguments, of type \<open>'a\<close>.
\<close>

datatype 'a print_call = Trace_printk string "'a list" | Pr_err string "'a list"

record 'a mcerr_state =
  mcerr_silenced :: u32
  calls :: "'a print_call list"

definition trace_printk :: "string \<Rightarrow> 'a list \<Rightarrow> 'a mcerr_state \<Rightarrow> 'a mcerr_state" where
  "trace_printk fmt args s = s\<lparr>calls := calls s @ [Trace_printk fmt args]\<rparr>"

definition pr_err :: "string \<Rightarrow> 'a list \<Rightarrow> 'a mcerr_state \<Rightarrow> 'a mcerr_state" where
  "pr_err fmt args s = s\<lparr>calls := calls s @ [Pr_err fmt args]\<rparr>"

text \<open>
  \<^verbatim>\<open>do { if (!mcerr_silenced) { trace_printk(fmt, ...); pr_err(fmt, ...); } } while (0)\<close>:
  the body runs once, and \<^verbatim>\<open>!mcerr_silenced\<close> holds when the global is zero.
\<close>

definition mcerr_pr :: "string \<Rightarrow> 'a list \<Rightarrow> 'a mcerr_state \<Rightarrow> 'a mcerr_state" where
  "mcerr_pr fmt args s =
     (if mcerr_silenced s = 0 then pr_err fmt args (trace_printk fmt args s) else s)"

subsection \<open>Error MMA tracking\<close>

definition MMA_HISTORY_SAMPLES :: int where
  "MMA_HISTORY_SAMPLES = 20"

text \<open>
  The macros \<^verbatim>\<open>client\<close> and \<^verbatim>\<open>dummy_client\<close> build initializers of
  \<^verbatim>\<open>struct mc_client\<close> and paste a token onto \<^verbatim>\<open>TEGRA_SWGROUP_\<close>; both the
  structure and those names belong to \<^verbatim>\<open>mc.h\<close>, so they have no counterpart here.
\<close>

section \<open>Properties\<close>

subsection \<open>Bits of integers\<close>

lemmas MC_INT_defs =
  MC_INT_DECERR_EMEM_def MC_INT_SECURITY_VIOLATION_def MC_INT_ARBITRATION_EMEM_def
  MC_INT_INVALID_SMMU_PAGE_def MC_INT_INVALID_APB_ASID_UPDATE_def MC_INT_DECERR_VPR_def
  MC_INT_SECERR_SEC_def MC_INT_BBC_PRIVATE_MEM_VIOLATION_def MC_INT_DECERR_BBC_def
  MC_INT_DECERR_MTS_def MC_INT_DECERR_GENERALIZED_CARVEOUT_def MC_INT_WCAM_ERR_def

lemmas MC_ERR_STATUS_defs =
  MC_ERR_SMMU_MASK_def MC_ERR_STATUS_WRITE_def MC_ERR_STATUS_SECURE_def
  MC_ERR_STATUS_ADR_HI_def

lemma bits_of_exp_int: "{n. bit (2 ^ k :: int) n} = {k}"
  by (auto simp add: bit_exp_iff)

lemma bits_of_push_bit_mask_int:
  "{n. bit (push_bit k (mask w) :: int) n} = {k ..< k + w}"
  by (auto simp add: bit_simps)

lemma exp_and_exp_int: "j \<noteq> k \<Longrightarrow> (2 ^ j :: int) AND 2 ^ k = 0"
  by (rule bit_eqI) (auto simp add: bit_simps)

lemma and_zero_if_bits_disjoint:
  "{n. bit a n} \<inter> {n. bit b n} = {} \<Longrightarrow> (a :: int) AND b = 0"
  by (rule bit_eqI) (auto simp add: bit_simps)

subsection \<open>The SMMU field\<close>

lemma MC_ERR_SMMU_MASK_word: "(word_of_int MC_ERR_SMMU_MASK :: u32) = push_bit 25 (mask 3)"
  by (simp add: MC_ERR_SMMU_MASK_def mask_eq_exp_minus_1)

lemma MC_ERR_SMMU_BITS_bit:
  "bit (MC_ERR_SMMU_BITS err) n = (n < 3 \<and> bit err (25 + n))"
  by (auto simp add: MC_ERR_SMMU_BITS_def MC_ERR_SMMU_MASK_word bit_simps
      dest: bit_imp_le_length)

lemma MC_ERR_SMMU_BITS_take_bit: "MC_ERR_SMMU_BITS err = take_bit 3 (drop_bit 25 err)"
  by (rule bit_word_eqI) (auto simp add: MC_ERR_SMMU_BITS_bit bit_simps ac_simps)

lemma unat_MC_ERR_SMMU_BITS: "unat (MC_ERR_SMMU_BITS err) = (unat err div 2 ^ 25) mod 8"
proof -
  have "unat (MC_ERR_SMMU_BITS err) = take_bit 3 (drop_bit 25 (unat err))"
    by (simp only: MC_ERR_SMMU_BITS_take_bit unsigned_take_bit_eq unat_drop_bit_eq)
  also have "\<dots> = (unat err div 2 ^ 25) mod 8"
    by (simp add: take_bit_eq_mod drop_bit_eq_div)
  finally show ?thesis .
qed

text \<open>
  Claim C2. For every 32-bit unsigned value \<open>err\<close>, \<open>MC_ERR_SMMU_BITS(err)\<close> equals
  \<open>(err >> 25) mod 8\<close>, the three-bit field at bit positions 25 to 27 of \<open>err\<close>, and
  so its result always lies in the range 0 to 7.
\<close>

theorem MC_ERR_SMMU_BITS_field:
  "unat (MC_ERR_SMMU_BITS err) = (unat err div 2 ^ 25) mod 8
   \<and> MC_ERR_SMMU_BITS err = drop_bit 25 err mod 8
   \<and> (\<forall>n. bit (MC_ERR_SMMU_BITS err) n = (n < 3 \<and> bit err (25 + n)))
   \<and> unat (MC_ERR_SMMU_BITS err) \<le> 7"
proof (intro conjI allI)
  show "unat (MC_ERR_SMMU_BITS err) = (unat err div 2 ^ 25) mod 8"
    by (rule unat_MC_ERR_SMMU_BITS)
  show "MC_ERR_SMMU_BITS err = drop_bit 25 err mod 8"
    by (simp add: MC_ERR_SMMU_BITS_take_bit take_bit_eq_mod)
  show "bit (MC_ERR_SMMU_BITS err) n = (n < 3 \<and> bit err (25 + n))" for n
    by (rule MC_ERR_SMMU_BITS_bit)
  show "unat (MC_ERR_SMMU_BITS err) \<le> 7"
    using unat_MC_ERR_SMMU_BITS [of err] by simp
qed

subsection \<open>Masks of the error status register\<close>

lemma MC_ERR_SMMU_MASK_bits: "{n. bit MC_ERR_SMMU_MASK n} = {25, 26, 27}"
proof -
  have eq: "MC_ERR_SMMU_MASK = push_bit 25 (mask 3)"
    by (simp add: MC_ERR_SMMU_MASK_def mask_eq_exp_minus_1)
  show ?thesis
    unfolding eq bits_of_push_bit_mask_int by auto
qed

lemma MC_ERR_STATUS_ADR_HI_bits: "{n. bit MC_ERR_STATUS_ADR_HI n} = {20, 21}"
proof -
  have eq: "MC_ERR_STATUS_ADR_HI = push_bit 20 (mask 2)"
    by (simp add: MC_ERR_STATUS_ADR_HI_def mask_eq_exp_minus_1)
  show ?thesis
    unfolding eq bits_of_push_bit_mask_int by auto
qed

lemma MC_ERR_STATUS_WRITE_bits: "{n. bit MC_ERR_STATUS_WRITE n} = {16}"
  using bits_of_exp_int [of 16] by (simp add: MC_ERR_STATUS_WRITE_def)

lemma MC_ERR_STATUS_SECURE_bits: "{n. bit MC_ERR_STATUS_SECURE n} = {17}"
  using bits_of_exp_int [of 17] by (simp add: MC_ERR_STATUS_SECURE_def)

lemmas MC_ERR_STATUS_bits =
  MC_ERR_SMMU_MASK_bits MC_ERR_STATUS_ADR_HI_bits MC_ERR_STATUS_WRITE_bits
  MC_ERR_STATUS_SECURE_bits

lemma MC_ERR_STATUS_values:
  "MC_ERR_SMMU_MASK = 0x0E000000" "MC_ERR_STATUS_WRITE = 0x10000"
  "MC_ERR_STATUS_SECURE = 0x20000" "MC_ERR_STATUS_ADR_HI = 0x300000"
  by (simp_all add: MC_ERR_STATUS_defs)

lemma MC_ERR_STATUS_disjoint:
  "MC_ERR_STATUS_WRITE AND MC_ERR_STATUS_SECURE = 0"
  "MC_ERR_STATUS_WRITE AND MC_ERR_SMMU_MASK = 0"
  "MC_ERR_STATUS_WRITE AND MC_ERR_STATUS_ADR_HI = 0"
  "MC_ERR_STATUS_SECURE AND MC_ERR_SMMU_MASK = 0"
  "MC_ERR_STATUS_SECURE AND MC_ERR_STATUS_ADR_HI = 0"
  by (rule and_zero_if_bits_disjoint, simp add: MC_ERR_STATUS_bits)+

text \<open>
  Claim C3. The bit-field masks have these exact values: \<open>MC_ERR_SMMU_MASK\<close> is
  \<open>0x7\<close> shifted left by 25, which is \<open>0x0E000000\<close>, the three contiguous bits from
  position 25; \<open>MC_ERR_STATUS_WRITE\<close> is the single bit 16, \<open>0x10000\<close>;
  \<open>MC_ERR_STATUS_SECURE\<close> is the single bit 17, \<open>0x20000\<close>; \<open>MC_ERR_STATUS_ADR_HI\<close>
  is the two contiguous bits from position 20, \<open>0x300000\<close>. \<open>MC_ERR_STATUS_WRITE\<close>
  and \<open>MC_ERR_STATUS_SECURE\<close> have no bit in common with each other, with
  \<open>MC_ERR_SMMU_MASK\<close> or with \<open>MC_ERR_STATUS_ADR_HI\<close>.
\<close>

theorem MC_ERR_STATUS_masks:
  "MC_ERR_SMMU_MASK = push_bit 25 0x7 \<and> MC_ERR_SMMU_MASK = 0x0E000000
   \<and> {n. bit MC_ERR_SMMU_MASK n} = {25, 26, 27}
   \<and> MC_ERR_STATUS_WRITE = 0x10000 \<and> {n. bit MC_ERR_STATUS_WRITE n} = {16}
   \<and> MC_ERR_STATUS_SECURE = 0x20000 \<and> {n. bit MC_ERR_STATUS_SECURE n} = {17}
   \<and> MC_ERR_STATUS_ADR_HI = 0x300000 \<and> {n. bit MC_ERR_STATUS_ADR_HI n} = {20, 21}
   \<and> MC_ERR_STATUS_WRITE AND MC_ERR_STATUS_SECURE = 0
   \<and> MC_ERR_STATUS_WRITE AND MC_ERR_SMMU_MASK = 0
   \<and> MC_ERR_STATUS_WRITE AND MC_ERR_STATUS_ADR_HI = 0
   \<and> MC_ERR_STATUS_SECURE AND MC_ERR_SMMU_MASK = 0
   \<and> MC_ERR_STATUS_SECURE AND MC_ERR_STATUS_ADR_HI = 0"
  by (simp only: MC_ERR_STATUS_bits MC_ERR_STATUS_disjoint MC_ERR_STATUS_values [symmetric]
      MC_ERR_SMMU_MASK_def [symmetric] simp_thms)

subsection \<open>Interrupt status bits\<close>

lemma MC_INT_masks_exp:
  "MC_INT_masks = map (\<lambda>k. 2 ^ k) [6, 8, 9, 10, 11, 12, 13, 14, 15, 16, 17, 19 :: nat]"
  by (simp add: MC_INT_defs)

lemma MC_INT_masks_single_bit:
  "\<forall>m \<in> set MC_INT_masks. \<exists>k. 6 \<le> k \<and> k \<le> 19 \<and> m = 2 ^ k \<and> {n. bit m n} = {k}"
  unfolding MC_INT_masks_exp by (simp add: bits_of_exp_int del: power_numeral)

lemma MC_INT_masks_disjoint:
  "\<forall>m \<in> set MC_INT_masks. \<forall>m' \<in> set MC_INT_masks. m \<noteq> m' \<longrightarrow> m AND m' = 0"
  unfolding MC_INT_masks_exp by (simp add: exp_and_exp_int del: power_numeral)

lemma MC_INT_masks_distinct: "distinct MC_INT_masks"
  by (simp add: MC_INT_defs)

lemma MC_INT_masks_range: "\<forall>m \<in> set MC_INT_masks. 0 < m \<and> m < 2 ^ 32"
  by (simp add: MC_INT_defs)

text \<open>
  Claim C7. Each of the twelve \<open>MC_INT_*\<close> interrupt status masks, from
  \<open>MC_INT_DECERR_EMEM\<close> to \<open>MC_INT_WCAM_ERR\<close>, is a power of two, with exactly one
  bit set, at a position from 6 to 19 and so within a 32-bit word; the twelve masks
  are pairwise distinct and pairwise disjoint as sets of bits, so that two different
  interrupt causes are signalled by different status bits.
\<close>

theorem MC_INT_status_bits:
  "MC_INT_masks = map (\<lambda>k. 2 ^ k) [6, 8, 9, 10, 11, 12, 13, 14, 15, 16, 17, 19 :: nat]
   \<and> length MC_INT_masks = 12
   \<and> (\<forall>m \<in> set MC_INT_masks. \<exists>k. 6 \<le> k \<and> k \<le> 19 \<and> m = 2 ^ k \<and> {n. bit m n} = {k})
   \<and> distinct MC_INT_masks
   \<and> (\<forall>m \<in> set MC_INT_masks. \<forall>m' \<in> set MC_INT_masks. m \<noteq> m' \<longrightarrow> m AND m' = 0)
   \<and> (\<forall>m \<in> set MC_INT_masks. 0 < m \<and> m < 2 ^ 32)"
  using MC_INT_masks_exp MC_INT_masks_single_bit MC_INT_masks_distinct MC_INT_masks_disjoint
    MC_INT_masks_range
  by (intro conjI) simp_all

text \<open>
  The first and the last of the twelve masks: they are members of the list, they
  differ, they share no bit, and the last one is bit 19 alone.
\<close>

theorem MC_INT_status_bits_witness:
  "MC_INT_DECERR_EMEM \<in> set MC_INT_masks \<and> MC_INT_WCAM_ERR \<in> set MC_INT_masks
   \<and> MC_INT_DECERR_EMEM \<noteq> MC_INT_WCAM_ERR
   \<and> MC_INT_DECERR_EMEM AND MC_INT_WCAM_ERR = 0
   \<and> {n. bit MC_INT_WCAM_ERR n} = {19}
   \<and> 0 < MC_INT_WCAM_ERR \<and> MC_INT_WCAM_ERR < 2 ^ 32"
proof -
  have in1: "MC_INT_DECERR_EMEM \<in> set MC_INT_masks"
    and in2: "MC_INT_WCAM_ERR \<in> set MC_INT_masks"
    by simp_all
  have ne: "MC_INT_DECERR_EMEM \<noteq> MC_INT_WCAM_ERR"
    by (simp add: MC_INT_DECERR_EMEM_def MC_INT_WCAM_ERR_def)
  from MC_INT_status_bits have
    single: "\<forall>m \<in> set MC_INT_masks. \<exists>k. 6 \<le> k \<and> k \<le> 19 \<and> m = 2 ^ k \<and> {n. bit m n} = {k}"
    and disj: "\<forall>m \<in> set MC_INT_masks. \<forall>m' \<in> set MC_INT_masks. m \<noteq> m' \<longrightarrow> m AND m' = 0"
    and range: "\<forall>m \<in> set MC_INT_masks. 0 < m \<and> m < 2 ^ 32"
    by blast+
  from single in2 obtain k where k: "MC_INT_WCAM_ERR = 2 ^ k" "{n. bit MC_INT_WCAM_ERR n} = {k}"
    by blast
  have "MC_INT_WCAM_ERR = 2 ^ 19"
    by (simp add: MC_INT_WCAM_ERR_def)
  with k(1) have "(2 :: int) ^ k = 2 ^ 19"
    by (simp only:)
  then have "k = 19"
    by (simp del: power_numeral)
  with k(2) have bits: "{n. bit MC_INT_WCAM_ERR n} = {19}"
    by simp
  from disj in1 in2 ne have "MC_INT_DECERR_EMEM AND MC_INT_WCAM_ERR = 0"
    by blast
  moreover from range in2 have "0 < MC_INT_WCAM_ERR \<and> MC_INT_WCAM_ERR < 2 ^ 32"
    by blast
  ultimately show ?thesis
    using in1 in2 ne bits by blast
qed

subsection \<open>Error codes and register offsets\<close>

text \<open>
  Claim C4. The error codes are \<open>MC_ERR_DECERR_EMEM = 2\<close>,
  \<open>MC_ERR_SECURITY_TRUSTZONE = 3\<close>, \<open>MC_ERR_SECURITY_CARVEOUT = 4\<close> and
  \<open>MC_ERR_INVALID_SMMU_PAGE = 6\<close>, and the four codes are pairwise distinct.
\<close>

theorem MC_ERR_codes:
  "MC_ERR_DECERR_EMEM = 2 \<and> MC_ERR_SECURITY_TRUSTZONE = 3 \<and> MC_ERR_SECURITY_CARVEOUT = 4
   \<and> MC_ERR_INVALID_SMMU_PAGE = 6
   \<and> distinct [MC_ERR_DECERR_EMEM, MC_ERR_SECURITY_TRUSTZONE, MC_ERR_SECURITY_CARVEOUT,
       MC_ERR_INVALID_SMMU_PAGE]"
  by (simp add: MC_ERR_DECERR_EMEM_def MC_ERR_SECURITY_TRUSTZONE_def
      MC_ERR_SECURITY_CARVEOUT_def MC_ERR_INVALID_SMMU_PAGE_def)

text \<open>
  Claim C5. The register offsets are \<open>MC_INT_STATUS = 0x0\<close>, \<open>MC_INT_MASK = 0x4\<close>,
  \<open>MC_ERR_BBC_STATUS = 0x84\<close> and \<open>MC_ERR_BBC_ADR = 0x88\<close>; the four offsets are
  pairwise distinct and each is a multiple of 4, the size of a 32-bit word.
\<close>

theorem MC_register_offsets:
  "MC_INT_STATUS = 0x0 \<and> MC_INT_MASK = 0x4 \<and> MC_ERR_BBC_STATUS = 0x84
   \<and> MC_ERR_BBC_ADR = 0x88
   \<and> distinct [MC_INT_STATUS, MC_INT_MASK, MC_ERR_BBC_STATUS, MC_ERR_BBC_ADR]
   \<and> 4 dvd MC_INT_STATUS \<and> 4 dvd MC_INT_MASK \<and> 4 dvd MC_ERR_BBC_STATUS
   \<and> 4 dvd MC_ERR_BBC_ADR"
  by (simp add: MC_INT_STATUS_def MC_INT_MASK_def MC_ERR_BBC_STATUS_def MC_ERR_BBC_ADR_def)

subsection \<open>The callback table and the error descriptor\<close>

text \<open>
  Claim C6. The chip-specific callback table \<open>struct mcerr_chip_specific\<close> consists of
  exactly seven function-pointer callbacks (\<open>mcerr_info\<close>, \<open>mcerr_print\<close>,
  \<open>mcerr_debugfs_show\<close>, \<open>disable_interrupt\<close>, \<open>enable_interrupt\<close>,
  \<open>clear_interrupt\<close>, \<open>log_mcerr_fault\<close>), the numeric field \<open>nr_clients\<close> and the
  array field \<open>intr_descriptions\<close>: a table is determined by these nine components,
  of the types written out. Its \<open>mcerr_info\<close> callback maps a 32-bit interrupt
  signature to a pointer to a \<open>struct mc_error\<close>, and such a structure consists of
  the fields \<open>msg\<close>, \<open>sig\<close>, \<open>flags\<close>, \<open>stat_reg\<close> and \<open>addr_reg\<close>.
\<close>

theorem mcerr_chip_specific_shape:
  fixes spec :: "('k, 'c, 'p, 'q, 'v) mcerr_chip_specific" and err :: mc_error
  shows "spec =
      \<lparr>mcerr_info = (mcerr_info spec :: u32 \<Rightarrow> mc_error option),
       mcerr_print = (mcerr_print spec ::
         mc_error \<Rightarrow> 'c \<Rightarrow> u32 \<Rightarrow> 'p \<Rightarrow> int \<Rightarrow> int \<Rightarrow> cstring \<Rightarrow> 'k \<Rightarrow> 'k),
       mcerr_debugfs_show = (mcerr_debugfs_show spec :: 'q \<Rightarrow> 'v \<Rightarrow> 'k \<Rightarrow> int \<times> 'k),
       disable_interrupt = (disable_interrupt spec :: u32 \<Rightarrow> 'k \<Rightarrow> 'k),
       enable_interrupt = (enable_interrupt spec :: u32 \<Rightarrow> 'k \<Rightarrow> 'k),
       clear_interrupt = (clear_interrupt spec :: u32 \<Rightarrow> 'k \<Rightarrow> 'k),
       log_mcerr_fault = (log_mcerr_fault spec :: u32 \<Rightarrow> 'k \<Rightarrow> 'k),
       nr_clients = (nr_clients spec :: u32),
       intr_descriptions = (intr_descriptions spec :: cstring list)\<rparr>
    \<and> err = \<lparr>msg = (msg err :: cstring), sig = (sig err :: u32), flags = (flags err :: int),
         stat_reg = (stat_reg err :: u32), addr_reg = (addr_reg err :: u32)\<rparr>"
  by simp

subsection \<open>Logging\<close>

lemma mcerr_pr_if:
  "mcerr_pr fmt args s =
     (if mcerr_silenced s = 0
      then s\<lparr>calls := calls s @ [Trace_printk fmt args, Pr_err fmt args]\<rparr> else s)"
  by (simp add: mcerr_pr_def pr_err_def trace_printk_def)

text \<open>
  Claim C8. An invocation of \<open>mcerr_pr\<close> emits output if and only if the global
  \<open>mcerr_silenced\<close> is zero, and then through \<open>trace_printk\<close> first and \<open>pr_err\<close>
  second, with the format and arguments of the invocation; when \<open>mcerr_silenced\<close> is
  not zero the invocation emits nothing and leaves the state as it was.
\<close>

theorem mcerr_pr_gated:
  "(calls (mcerr_pr fmt args s) \<noteq> calls s) = (mcerr_silenced s = 0)
   \<and> (mcerr_silenced s = 0 \<longrightarrow>
        mcerr_pr fmt args s = s\<lparr>calls := calls s @ [Trace_printk fmt args, Pr_err fmt args]\<rparr>)
   \<and> (mcerr_silenced s \<noteq> 0 \<longrightarrow> mcerr_pr fmt args s = s)"
  by (simp add: mcerr_pr_if)

text \<open>
  One invocation with the global at zero and one with the global at one, after an
  earlier \<open>pr_err\<close>.
\<close>

theorem mcerr_pr_gated_witness:
  "mcerr_silenced \<lparr>mcerr_silenced = 0, calls = [Pr_err ''boot'' [1 :: u32]]\<rparr> = 0
   \<and> mcerr_pr ''fault %x'' [7] \<lparr>mcerr_silenced = 0, calls = [Pr_err ''boot'' [1 :: u32]]\<rparr>
       = \<lparr>mcerr_silenced = 0,
          calls = [Pr_err ''boot'' [1], Trace_printk ''fault %x'' [7], Pr_err ''fault %x'' [7]]\<rparr>
   \<and> mcerr_silenced \<lparr>mcerr_silenced = 1, calls = [Pr_err ''boot'' [1 :: u32]]\<rparr> \<noteq> 0
   \<and> mcerr_pr ''fault %x'' [7] \<lparr>mcerr_silenced = 1, calls = [Pr_err ''boot'' [1 :: u32]]\<rparr>
       = \<lparr>mcerr_silenced = 1, calls = [Pr_err ''boot'' [1]]\<rparr>"
  using
    mcerr_pr_gated [of "''fault %x''" "[7]"
      "\<lparr>mcerr_silenced = 0, calls = [Pr_err ''boot'' [1 :: u32]]\<rparr>"]
    mcerr_pr_gated [of "''fault %x''" "[7]"
      "\<lparr>mcerr_silenced = 1, calls = [Pr_err ''boot'' [1 :: u32]]\<rparr>"]
  by simp

subsection \<open>Which definitions compute\<close>

lemmas mcerr_object_defs =
  MAX_PRINTS_def MC_INT_STATUS_def MC_INT_MASK_def MC_ERR_BBC_STATUS_def MC_ERR_BBC_ADR_def
  MC_ERR_STATUS_defs MC_INT_defs MC_HUBC_INT_SCRUB_ECC_WR_ACK_def
  MC_ERR_DECERR_EMEM_def MC_ERR_SECURITY_TRUSTZONE_def MC_ERR_SECURITY_CARVEOUT_def
  MC_ERR_INVALID_SMMU_PAGE_def E_SMMU_def E_NO_STATUS_def E_TWO_STATUS_def
  MMA_HISTORY_SAMPLES_def

lemma mcerr_object_values:
  "[MAX_PRINTS, MC_INT_STATUS, MC_INT_MASK, MC_ERR_BBC_STATUS, MC_ERR_BBC_ADR,
    MC_ERR_SMMU_MASK, MC_ERR_STATUS_WRITE, MC_ERR_STATUS_SECURE, MC_ERR_STATUS_ADR_HI]
     @ MC_INT_masks @
    [MC_HUBC_INT_SCRUB_ECC_WR_ACK,
     MC_ERR_DECERR_EMEM, MC_ERR_SECURITY_TRUSTZONE, MC_ERR_SECURITY_CARVEOUT,
     MC_ERR_INVALID_SMMU_PAGE, E_SMMU, E_NO_STATUS, E_TWO_STATUS, MMA_HISTORY_SAMPLES]
   = [5, 0x0, 0x4, 0x84, 0x88, 0x0E000000, 0x10000, 0x20000, 0x300000,
      0x40, 0x100, 0x200, 0x400, 0x800, 0x1000, 0x2000, 0x4000, 0x8000, 0x10000, 0x20000,
      0x80000, 0x1, 2, 3, 4, 6, 0x1, 0x2, 0x4, 20]"
  by (simp add: mcerr_object_defs)

lemma MC_ERR_SMMU_BITS_hex: "MC_ERR_SMMU_BITS err = drop_bit 25 (err AND 0x0E000000)"
  by (simp add: MC_ERR_SMMU_BITS_def MC_ERR_SMMU_MASK_def)

text \<open>
  Claim C1, as stated: every definition of the header is a pure declaration, and every
  definition embedded as a function is a constant with no branching and no computation.
  Two function-like macros of the header are not: \<open>MC_ERR_SMMU_BITS\<close> returns 1 for
  the status word \<open>0x02000000\<close> and 0 for the status word 0, and \<open>mcerr_pr\<close> makes
  two calls when \<open>mcerr_silenced\<close> is 0 and none when it is 1.
\<close>

theorem header_logic_counterexample:
  "MC_ERR_SMMU_BITS 0x02000000 = 1 \<and> MC_ERR_SMMU_BITS 0 = 0
   \<and> MC_ERR_SMMU_BITS 0x02000000 \<noteq> MC_ERR_SMMU_BITS 0
   \<and> calls (mcerr_pr ''fault'' ([] :: u32 list) \<lparr>mcerr_silenced = 0, calls = []\<rparr>)
       = [Trace_printk ''fault'' [], Pr_err ''fault'' []]
   \<and> calls (mcerr_pr ''fault'' ([] :: u32 list) \<lparr>mcerr_silenced = 1, calls = []\<rparr>) = []"
  by (simp add: MC_ERR_SMMU_BITS_hex mcerr_pr_if)

text \<open>
  Claim C1, amended: every object-like macro of the header that stands for a number
  is a constant, one fixed integer that depends on no input, and the initializer macro
  \<open>MC_ERR\<close> only stores its five arguments in the fields of a \<open>struct mc_error\<close>;
  two function-like macros do carry logic: \<open>MC_ERR_SMMU_BITS\<close> computes a mask and
  a right shift of its argument, and \<open>mcerr_pr\<close> branches on \<open>mcerr_silenced\<close>.
\<close>

theorem header_logic_amended:
  "[MAX_PRINTS, MC_INT_STATUS, MC_INT_MASK, MC_ERR_BBC_STATUS, MC_ERR_BBC_ADR,
    MC_ERR_SMMU_MASK, MC_ERR_STATUS_WRITE, MC_ERR_STATUS_SECURE, MC_ERR_STATUS_ADR_HI]
     @ MC_INT_masks @
    [MC_HUBC_INT_SCRUB_ECC_WR_ACK,
     MC_ERR_DECERR_EMEM, MC_ERR_SECURITY_TRUSTZONE, MC_ERR_SECURITY_CARVEOUT,
     MC_ERR_INVALID_SMMU_PAGE, E_SMMU, E_NO_STATUS, E_TWO_STATUS, MMA_HISTORY_SAMPLES]
   = [5, 0x0, 0x4, 0x84, 0x88, 0x0E000000, 0x10000, 0x20000, 0x300000,
      0x40, 0x100, 0x200, 0x400, 0x800, 0x1000, 0x2000, 0x4000, 0x8000, 0x10000, 0x20000,
      0x80000, 0x1, 2, 3, 4, 6, 0x1, 0x2, 0x4, 20]
   \<and> MC_ERR sg m f st ad = \<lparr>msg = m, sig = sg, flags = f, stat_reg = st, addr_reg = ad\<rparr>
   \<and> MC_ERR_SMMU_BITS err = drop_bit 25 (err AND 0x0E000000)
   \<and> mcerr_pr fmt args s =
        (if mcerr_silenced s = 0
         then s\<lparr>calls := calls s @ [Trace_printk fmt args, Pr_err fmt args]\<rparr> else s)"
  by (intro conjI) (rule mcerr_object_values MC_ERR_def MC_ERR_SMMU_BITS_hex mcerr_pr_if)+

end
